theory Spec2Isabelle
  imports Complex_Main "HOL-Library.Multiset"
begin

section \<open>Numeric cells of a data frame\<close>

text \<open>
  A numeric cell of a pandas column is a float64. The model keeps the one special value
  the scripts rely on, NaN, as \<open>None\<close>, and idealises every finite float as a real
  number: rounding, overflow and the infinities are not modelled. Arithmetic on cells
  propagates NaN, and every comparison with NaN is false, as in numpy.
\<close>

type_synonym fl = "real option"

definition fl_add :: "fl \<Rightarrow> fl \<Rightarrow> fl" where
  "fl_add a b = (case a of None \<Rightarrow> None | Some x \<Rightarrow> (case b of None \<Rightarrow> None | Some y \<Rightarrow> Some (x + y)))"

definition fl_sub :: "fl \<Rightarrow> fl \<Rightarrow> fl" where
  "fl_sub a b = (case a of None \<Rightarrow> None | Some x \<Rightarrow> (case b of None \<Rightarrow> None | Some y \<Rightarrow> Some (x - y)))"

definition fl_mul :: "fl \<Rightarrow> fl \<Rightarrow> fl" where
  "fl_mul a b = (case a of None \<Rightarrow> None | Some x \<Rightarrow> (case b of None \<Rightarrow> None | Some y \<Rightarrow> Some (x * y)))"

definition fl_div :: "fl \<Rightarrow> fl \<Rightarrow> fl" where
  \<comment> \<open>pandas does not raise on a zero divisor: it yields an infinity or NaN. The model has
      no infinities and yields NaN; the scripts discard or avoid every such quotient.\<close>
  "fl_div a b = (case a of None \<Rightarrow> None | Some x \<Rightarrow>
     (case b of None \<Rightarrow> None | Some y \<Rightarrow> (if y = 0 then None else Some (x / y))))"

definition fl_gt :: "fl \<Rightarrow> real \<Rightarrow> bool" where
  "fl_gt a c = (case a of None \<Rightarrow> False | Some x \<Rightarrow> x > c)"

definition fl_ge :: "fl \<Rightarrow> real \<Rightarrow> bool" where
  "fl_ge a c = (case a of None \<Rightarrow> False | Some x \<Rightarrow> x \<ge> c)"

definition fl_lt :: "fl \<Rightarrow> real \<Rightarrow> bool" where
  "fl_lt a c = (case a of None \<Rightarrow> False | Some x \<Rightarrow> x < c)"

definition fl_le :: "fl \<Rightarrow> real \<Rightarrow> bool" where
  "fl_le a c = (case a of None \<Rightarrow> False | Some x \<Rightarrow> x \<le> c)"

definition fillna :: "'a \<Rightarrow> 'a option \<Rightarrow> 'a option" where
  "fillna d a = (case a of None \<Rightarrow> Some d | Some x \<Rightarrow> Some x)"

definition np_clip :: "fl \<Rightarrow> real \<Rightarrow> real \<Rightarrow> fl" where
  \<comment> \<open>\<open>np.clip(a, a_min, a_max)\<close> is \<open>minimum(a_max, maximum(a, a_min))\<close>; NaN stays NaN.\<close>
  "np_clip a a_min a_max = (case a of None \<Rightarrow> None | Some x \<Rightarrow> Some (min a_max (max x a_min)))"

definition clip_lower :: "fl \<Rightarrow> real \<Rightarrow> fl" where
  \<comment> \<open>\<open>Series.clip(lower=l)\<close>\<close>
  "clip_lower a l = (case a of None \<Rightarrow> None | Some x \<Rightarrow> Some (max x l))"

definition np_where :: "bool \<Rightarrow> 'a \<Rightarrow> 'a \<Rightarrow> 'a" where
  "np_where c x y = (if c then x else y)"

fun np_select :: "bool list \<Rightarrow> 'a list \<Rightarrow> 'a \<Rightarrow> 'a" where
  \<comment> \<open>One row of \<open>np.select(condlist, choicelist, default)\<close>: the choice of the first
      condition that holds. numpy raises on lists of different lengths; the script passes
      two literals of length four.\<close>
  "np_select (c # cs) (v # vs) d = (if c then v else np_select cs vs d)"
| "np_select _ _ d = d"

section \<open>The input tables\<close>

text \<open>
  The four tables \<open>generate_customer_analytics.py\<close> loads. Keys are natural numbers,
  dates are day numbers, a missing date (NaT) or number (NaN) is \<open>None\<close>.
\<close>

record policy =
  policy_id :: nat
  customer_id :: nat
  status :: string
  annual_premium :: fl
  coverage_amount :: fl
  policy_type :: string
  start_date :: "int option"

record claim =
  claim_id :: nat
  policy_id :: nat
  claim_amount :: fl
  status :: string
  claim_date :: "int option"

record fraud_detection =
  claim_id :: nat
  detection_date :: "int option"
  is_fraudulent :: bool
  confidence_score :: fl

text \<open>
  The aggregate columns of the grouped tables; the group key is kept beside them. The
  dictionary-valued columns \<open>policy_types\<close> and \<open>claim_statuses\<close> are left out: no
  later step reads them.
\<close>

record policy_agg =
  total_policies :: fl
  active_policies :: fl
  avg_annual_premium :: fl
  total_coverage :: fl
  policy_ids :: "nat list"

record claims_agg =
  total_claims :: fl
  total_claimed_amount :: fl
  avg_claim_amount :: fl

record fraud_agg =
  fraud_detected :: "bool option"
  detection_count :: fl
  avg_confidence :: fl

section \<open>The customer table and the merged table\<close>

record customer =
  customer_id :: nat
  name :: string
  age :: fl
  email :: string
  city :: string
  registration_date :: "int option"

text \<open>The customer table after \<open>preprocess_data\<close> added the tenure column.\<close>

record customer_t = customer +
  customer_tenure_days :: fl

text \<open>
  One row of the merged analytics table: the customer's columns and the metric columns of
  \<open>final_columns\<close>. The dictionary-valued column \<open>policy_types\<close> is left out; no
  later stage reads it.
\<close>

record analytics_row = customer_t +
  policy_tenure_days :: fl
  total_policies :: fl
  active_policies :: fl
  total_claims :: fl
  total_claimed_amount :: fl
  avg_claim_amount :: fl
  fraud_detected :: "bool option"
  detection_count :: fl
  avg_confidence :: fl
  claims_per_policy :: fl
  fraud_rate :: fl
  avg_annual_premium :: fl
  total_coverage :: fl
  policy_ids :: "nat list option"

section \<open>generate\_customer\_analytics.py\<close>

subsection \<open>Grouping, aggregating and merging\<close>

definition dropna :: "'a option list \<Rightarrow> 'a list" where
  "dropna xs = List.map_filter (\<lambda>x. x) xs"

definition agg_count :: "'a list \<Rightarrow> fl" where
  \<comment> \<open>\<open>'count'\<close> of a key column, which has no missing cell\<close>
  "agg_count xs = Some (real (length xs))"

definition agg_sum :: "fl list \<Rightarrow> fl" where
  \<comment> \<open>\<open>'sum'\<close> skips NaN; the sum of no value is 0\<close>
  "agg_sum xs = Some (sum_list (dropna xs))"

definition agg_mean :: "fl list \<Rightarrow> fl" where
  \<comment> \<open>\<open>'mean'\<close> skips NaN; the mean of no value is NaN\<close>
  "agg_mean xs =
     (let vs = dropna xs in if vs = [] then None else Some (sum_list vs / real (length vs)))"

definition agg_min :: "int option list \<Rightarrow> int option" where
  "agg_min xs = (case dropna xs of [] \<Rightarrow> None | v # vs \<Rightarrow> Some (fold min vs v))"

definition agg_max :: "bool option list \<Rightarrow> bool option" where
  "agg_max xs = (case dropna xs of [] \<Rightarrow> None | v # vs \<Rightarrow> Some (fold max vs v))"

definition group_keys :: "('a \<Rightarrow> nat option) \<Rightarrow> 'a list \<Rightarrow> nat list" where
  \<comment> \<open>\<open>groupby\<close> drops the rows with a missing key and sorts the group keys\<close>
  "group_keys key df = sort (remdups (List.map_filter key df))"

definition groupby :: "('a \<Rightarrow> nat option) \<Rightarrow> 'a list \<Rightarrow> (nat \<times> 'a list) list" where
  "groupby key df = map (\<lambda>k. (k, filter (\<lambda>r. key r = Some k) df)) (group_keys key df)"

definition drop_duplicates :: "'a list \<Rightarrow> 'a list" where
  \<comment> \<open>keeps the first of equal rows\<close>
  "drop_duplicates xs = rev (remdups (rev xs))"

definition merge_left :: "('a \<Rightarrow> 'k) \<Rightarrow> ('b \<Rightarrow> 'k) \<Rightarrow> 'a list \<Rightarrow> 'b list \<Rightarrow> ('a \<times> 'b option) list" where
  \<comment> \<open>\<open>pd.merge(left, right, on=key, how='left')\<close>: every left row, in order, once for
      each right row with its key, and once with missing right columns if there is none\<close>
  "merge_left kl kr left right =
     concat (map (\<lambda>l. case filter (\<lambda>r. kr r = kl l) right of
                          [] \<Rightarrow> [(l, None)]
                        | ms \<Rightarrow> map (\<lambda>r. (l, Some r)) ms) left)"

definition right_col :: "('b \<Rightarrow> 'c option) \<Rightarrow> ('k \<times> 'b) option \<Rightarrow> 'c option" where
  \<comment> \<open>the cell of a column of the right table in a merged row\<close>
  "right_col f m = (case m of None \<Rightarrow> None | Some (k, b) \<Rightarrow> f b)"

definition replace_zero_nan :: "fl \<Rightarrow> fl" where
  \<comment> \<open>\<open>.replace(0, np.nan)\<close>\<close>
  "replace_zero_nan a = (if a = Some 0 then None else a)"

subsection \<open>preprocess\_data\<close>

definition days_since :: "int \<Rightarrow> int option \<Rightarrow> fl" where
  \<comment> \<open>\<open>(current_date - date).dt.days\<close>\<close>
  "days_since current_date d = (case d of None \<Rightarrow> None | Some x \<Rightarrow> Some (real_of_int (current_date - x)))"

definition preprocess_data ::
  "int \<Rightarrow> customer list \<Rightarrow> policy list \<Rightarrow> claim list \<Rightarrow> fraud_detection list \<Rightarrow>
   customer_t list \<times> policy list \<times> claim list \<times> fraud_detection list \<times> (nat \<times> fl) list" where
  \<comment> \<open>The script reads the clock once; here the date read is the first argument. The
      \<open>pd.to_datetime\<close> conversions are the identity on day numbers.\<close>
  "preprocess_data current_date customers policies claims fraud =
     (let customers = map (\<lambda>c. customer.extend c
              (customer_t.fields (days_since current_date (registration_date c)))) customers;
          first_policy = map (\<lambda>(k, g). (k, agg_min (map start_date g)))
              (groupby (\<lambda>p. Some (policy.customer_id p)) policies);
          first_policy = map (\<lambda>(k, d). (k, days_since current_date d)) first_policy
      in (customers, policies, claims, fraud, first_policy))"

subsection \<open>create\_customer\_analytics\<close>

definition policy_metrics :: "policy list \<Rightarrow> (nat \<times> policy_agg) list" where
  "policy_metrics policies =
     map (\<lambda>(k, g). (k,
            \<lparr>policy_agg.total_policies = agg_count (map policy.policy_id g),
             policy_agg.active_policies = Some (real (length (filter (\<lambda>p. policy.status p = ''ACTIVE'') g))),
             policy_agg.avg_annual_premium = agg_mean (map annual_premium g),
             policy_agg.total_coverage = agg_sum (map coverage_amount g),
             policy_agg.policy_ids = map policy.policy_id g\<rparr>))
       (groupby (\<lambda>p. Some (policy.customer_id p)) policies)"

definition claims_metrics :: "claim list \<Rightarrow> (nat \<times> claims_agg) list" where
  "claims_metrics claims =
     map (\<lambda>(k, g). (k,
            \<lparr>claims_agg.total_claims = agg_count (map claim.claim_id g),
             claims_agg.total_claimed_amount = agg_sum (map claim_amount g),
             claims_agg.avg_claim_amount = agg_mean (map claim_amount g)\<rparr>))
       (groupby (\<lambda>c. Some (claim.policy_id c)) claims)"

definition fraud_metrics :: "fraud_detection list \<Rightarrow> (nat \<times> fraud_agg) list" where
  "fraud_metrics fraud =
     map (\<lambda>(k, g). (k,
            \<lparr>fraud_agg.fraud_detected = agg_max (map (\<lambda>f. Some (is_fraudulent f)) g),
             fraud_agg.detection_count = Some (real (length (filter is_fraudulent g))),
             fraud_agg.avg_confidence = agg_mean (map confidence_score g)\<rparr>))
       (groupby (\<lambda>f. Some (fraud_detection.claim_id f)) fraud)"

definition policy_customer_map :: "policy list \<Rightarrow> (nat \<times> nat) list" where
  \<comment> \<open>pairs of policy\_id and customer\_id\<close>
  "policy_customer_map policies =
     drop_duplicates (map (\<lambda>p. (policy.policy_id p, policy.customer_id p)) policies)"

definition customer_claims :: "policy list \<Rightarrow> claim list \<Rightarrow> (nat \<times> claims_agg) list" where
  "customer_claims policies claims =
     (let policy_claims = merge_left fst fst (policy_customer_map policies) (claims_metrics claims)
      in map (\<lambda>(k, g). (k,
            \<lparr>claims_agg.total_claims = agg_sum (map (\<lambda>r. right_col claims_agg.total_claims (snd r)) g),
             claims_agg.total_claimed_amount =
               agg_sum (map (\<lambda>r. right_col claims_agg.total_claimed_amount (snd r)) g),
             claims_agg.avg_claim_amount =
               agg_mean (map (\<lambda>r. right_col claims_agg.avg_claim_amount (snd r)) g)\<rparr>))
           (groupby (\<lambda>r. Some (snd (fst r))) policy_claims))"

definition customer_fraud_metrics ::
  "policy list \<Rightarrow> claim list \<Rightarrow> fraud_detection list \<Rightarrow> (nat \<times> fraud_agg) list" where
  "customer_fraud_metrics policies claims fraud =
     (let claims_fraud = merge_left claim.claim_id fst claims (fraud_metrics fraud);
          policy_fraud = merge_left (\<lambda>r. claim.policy_id (fst r)) fst claims_fraud
                           (policy_customer_map policies)
      in map (\<lambda>(k, g). (k,
            \<lparr>fraud_agg.fraud_detected =
               agg_max (map (\<lambda>r. right_col fraud_agg.fraud_detected (snd (fst r))) g),
             fraud_agg.detection_count =
               agg_sum (map (\<lambda>r. right_col fraud_agg.detection_count (snd (fst r))) g),
             fraud_agg.avg_confidence =
               agg_mean (map (\<lambda>r. right_col fraud_agg.avg_confidence (snd (fst r))) g)\<rparr>))
           (groupby (\<lambda>r. map_option snd (snd r)) policy_fraud))"

type_synonym customer_metrics_row =
  "(((nat \<times> policy_agg) \<times> (nat \<times> claims_agg) option) \<times> (nat \<times> fraud_agg) option) \<times> (nat \<times> fl) option"

definition metrics_key :: "customer_metrics_row \<Rightarrow> nat" where
  \<comment> \<open>the customer\_id of a row of \<open>customer_metrics\<close>\<close>
  "metrics_key m = fst (fst (fst (fst m)))"

definition customer_metrics ::
  "policy list \<Rightarrow> claim list \<Rightarrow> fraud_detection list \<Rightarrow> (nat \<times> fl) list \<Rightarrow> customer_metrics_row list" where
  "customer_metrics policies claims fraud first_policy =
     (let customer_metrics = merge_left fst fst (policy_metrics policies) (customer_claims policies claims);
          customer_metrics = merge_left (\<lambda>m. fst (fst m)) fst customer_metrics
                               (customer_fraud_metrics policies claims fraud);
          customer_metrics = merge_left (\<lambda>m. fst (fst (fst m))) fst customer_metrics first_policy
      in customer_metrics)"

definition policy_col :: "(policy_agg \<Rightarrow> 'c option) \<Rightarrow> customer_metrics_row option \<Rightarrow> 'c option" where
  \<comment> \<open>a cell of a column that came from \<open>policy_metrics\<close>, after the merge onto the
      customers; likewise below for the claim, fraud and tenure columns\<close>
  "policy_col f m = Option.bind m (\<lambda>x. f (snd (fst (fst (fst x)))))"

definition claims_col :: "(claims_agg \<Rightarrow> 'c option) \<Rightarrow> customer_metrics_row option \<Rightarrow> 'c option" where
  "claims_col f m = Option.bind m (\<lambda>x. right_col f (snd (fst (fst x))))"

definition fraud_col :: "(fraud_agg \<Rightarrow> 'c option) \<Rightarrow> customer_metrics_row option \<Rightarrow> 'c option" where
  "fraud_col f m = Option.bind m (\<lambda>x. right_col f (snd (fst x)))"

definition tenure_col :: "customer_metrics_row option \<Rightarrow> fl" where
  "tenure_col m = Option.bind m (\<lambda>x. right_col (\<lambda>d. d) (snd x))"

definition analytics_of :: "customer_t \<times> customer_metrics_row option \<Rightarrow> analytics_row" where
  \<comment> \<open>Steps 6 to 8 on one merged row: the numeric columns get 0 for NaN (the key, a number
      too, is never missing), then the two ratios are added, then \<open>final_columns\<close> are
      selected. The columns that are not numeric (names, dates, the fraud flag, the list of
      policy ids) stay as they are.\<close>
  "analytics_of cm =
     (let c = fst cm; m = snd cm;
          tp = fillna 0 (policy_col policy_agg.total_policies m);
          tc = fillna 0 (claims_col claims_agg.total_claims m);
          dc = fillna 0 (fraud_col fraud_agg.detection_count m)
      in \<lparr>customer_id = customer_id c, name = name c, age = fillna 0 (age c),
          email = email c, city = city c, registration_date = registration_date c,
          customer_tenure_days = fillna 0 (customer_tenure_days c),
          policy_tenure_days = fillna 0 (tenure_col m),
          total_policies = tp,
          active_policies = fillna 0 (policy_col policy_agg.active_policies m),
          total_claims = tc,
          total_claimed_amount = fillna 0 (claims_col claims_agg.total_claimed_amount m),
          avg_claim_amount = fillna 0 (claims_col claims_agg.avg_claim_amount m),
          fraud_detected = fraud_col fraud_agg.fraud_detected m,
          detection_count = dc,
          avg_confidence = fillna 0 (fraud_col fraud_agg.avg_confidence m),
          claims_per_policy = fl_div tc (replace_zero_nan tp),
          fraud_rate = fl_div dc (replace_zero_nan tc),
          avg_annual_premium = fillna 0 (policy_col policy_agg.avg_annual_premium m),
          total_coverage = fillna 0 (policy_col policy_agg.total_coverage m),
          policy_ids = policy_col (\<lambda>a. Some (policy_agg.policy_ids a)) m\<rparr>)"

definition create_customer_analytics ::
  "customer_t list \<Rightarrow> policy list \<Rightarrow> claim list \<Rightarrow> fraud_detection list \<Rightarrow> (nat \<times> fl) list \<Rightarrow>
   analytics_row list" where
  "create_customer_analytics customers policies claims fraud first_policy =
     (let customer_analytics = merge_left customer_id metrics_key customers
            (customer_metrics policies claims fraud first_policy)
      in map analytics_of customer_analytics)"

definition generate_customer_analytics ::
  "int \<Rightarrow> customer list \<Rightarrow> policy list \<Rightarrow> claim list \<Rightarrow> fraud_detection list \<Rightarrow> analytics_row list" where
  \<comment> \<open>The table the script's \<open>main\<close> writes, from the four tables it loads.\<close>
  "generate_customer_analytics current_date customers policies claims fraud =
     (case preprocess_data current_date customers policies claims fraud of
        (customers, policies, claims, fraud, first_policy) \<Rightarrow>
          create_customer_analytics customers policies claims fraud first_policy)"

section \<open>customer\_analytics.py\<close>

record metrics_row = analytics_row +
  total_claim_amount :: fl
  annual_premium_sum :: fl
  fraud_claims :: fl

record lifetime_row = metrics_row +
  lifetime_value :: fl
  loss_ratio :: fl

record risk_row = lifetime_row +
  risk_score :: fl

record segment_row = risk_row +
  segment :: string

definition load_and_prepare_row :: "analytics_row \<Rightarrow> analytics_row" where
  \<comment> \<open>\<open>pd.to_numeric(..., errors='coerce')\<close> leaves a numeric cell as it is and turns
      anything else into NaN, which the cell type already does.\<close>
  "load_and_prepare_row r =
     r\<lparr>policy_tenure_days := policy_tenure_days r,
       fraud_detected := fillna False (fraud_detected r),
       detection_count := fillna 0 (detection_count r)\<rparr>"

definition load_and_prepare_data :: "analytics_row list \<Rightarrow> analytics_row list" where
  "load_and_prepare_data csv = map load_and_prepare_row csv"

definition calculate_metrics_row :: "analytics_row \<Rightarrow> metrics_row" where
  "calculate_metrics_row df =
     (let result = df\<lparr>policy_tenure_days := fillna 0 (policy_tenure_days df)\<rparr>;
          result = result\<lparr>total_claims := fillna 0 (total_claims result)\<rparr>
      in analytics_row.extend result
           (metrics_row.fields
              (fillna 0 (total_claimed_amount result))
              (fl_mul (active_policies result) (avg_annual_premium result))
              (detection_count result)))"

definition calculate_metrics :: "analytics_row list \<Rightarrow> metrics_row list" where
  "calculate_metrics df = map calculate_metrics_row df"

definition calculate_lifetime_row :: "metrics_row \<Rightarrow> lifetime_row" where
  "calculate_lifetime_row df =
     metrics_row.extend df
       (lifetime_row.fields
          (fl_sub (annual_premium_sum df) (total_claim_amount df))
          (np_where (fl_gt (annual_premium_sum df) 0)
             (fl_div (total_claim_amount df) (annual_premium_sum df))
             None))"

definition calculate_lifetime_metrics :: "metrics_row list \<Rightarrow> lifetime_row list" where
  "calculate_lifetime_metrics df = map calculate_lifetime_row df"

definition loss_ratio_score :: "lifetime_row \<Rightarrow> fl" where
  "loss_ratio_score r = np_clip (fl_mul (loss_ratio r) (Some 50)) 0 50"

definition fraud_score :: "lifetime_row \<Rightarrow> fl" where
  "fraud_score r = np_clip (fl_mul (fraud_claims r) (Some 3)) 0 30"

definition claims_per_year :: "lifetime_row \<Rightarrow> fl" where
  "claims_per_year r =
     fl_div (total_claims r) (fl_div (clip_lower (policy_tenure_days r) 1) (Some 365.25))"

definition frequency_score :: "lifetime_row \<Rightarrow> fl" where
  "frequency_score r = np_clip (fl_mul (claims_per_year r) (Some 4)) 0 20"

definition calculate_risk_row :: "lifetime_row \<Rightarrow> risk_row" where
  "calculate_risk_row df =
     lifetime_row.extend df
       (risk_row.fields
          (fl_add (fl_add (loss_ratio_score df) (fraud_score df)) (frequency_score df)))"

definition calculate_risk_score :: "lifetime_row list \<Rightarrow> risk_row list" where
  "calculate_risk_score df = map calculate_risk_row df"

definition conditions :: "fl \<Rightarrow> fl \<Rightarrow> bool list" where
  \<comment> \<open>The condition list of \<open>assign_segments\<close> on one row's lifetime value and risk score.\<close>
  "conditions ltv risk =
     [fl_ge ltv 0 \<and> fl_le risk 40,
      fl_ge ltv 0 \<and> fl_gt risk 40 \<and> fl_le risk 60,
      fl_lt ltv 0 \<and> fl_gt risk 60,
      True]"

definition segments :: "string list" where
  "segments = [''Premium Partner'', ''Growth Prospect'', ''Risk Management'', ''Watch List'']"

definition segment_of :: "fl \<Rightarrow> fl \<Rightarrow> string" where
  "segment_of ltv risk = np_select (conditions ltv risk) segments ''Watch List''"

definition assign_segments_row :: "risk_row \<Rightarrow> segment_row" where
  "assign_segments_row df =
     risk_row.extend df
       (segment_row.fields (segment_of (lifetime_value df) (risk_score df)))"

definition assign_segments :: "risk_row list \<Rightarrow> segment_row list" where
  "assign_segments df = map assign_segments_row df"

subsection \<open>Selecting the output columns and sorting\<close>

datatype error = KeyError

text \<open>
  A frame is the list of its visible column names and its rows; selecting columns
  changes the names only, and raises KeyError on a name the frame does not have.
\<close>

record frame =
  columns :: "string list"
  rows :: "segment_row list"

definition final_columns :: "string list" where
  "final_columns =
     [''customer_id'', ''name'', ''age'', ''email'', ''city'', ''registration_date'',
      ''customer_tenure_days'', ''policy_tenure_days'',
      ''total_policies'', ''active_policies'', ''policy_types'',
      ''total_claims'', ''total_claimed_amount'', ''avg_claim_amount'',
      ''fraud_detected'', ''detection_count'', ''avg_confidence'',
      ''claims_per_policy'', ''fraud_rate'',
      ''avg_annual_premium'', ''total_coverage'', ''policy_ids'']"

definition segment_columns :: "string list" where
  \<comment> \<open>The columns of the frame after the five stages: those read from the file, then the
      added ones in the order the stages add them.\<close>
  "segment_columns = final_columns @
     [''total_claim_amount'', ''annual_premium_sum'', ''fraud_claims'',
      ''lifetime_value'', ''loss_ratio'', ''risk_score'', ''segment'']"

definition output_cols :: "string list" where
  "output_cols =
     [''customer_id'', ''name'', ''lifetime_value'', ''loss_ratio'',
      ''risk_score'', ''segment'', ''total_claims'', ''total_claim_amount'',
      ''annual_premium_sum'', ''fraud_claims'', ''policy_tenure_days'']"

definition getitem :: "frame \<Rightarrow> string list \<Rightarrow> error + frame" where
  "getitem df cols =
     (if list_all (\<lambda>c. c \<in> set (columns df)) cols then Inr (df\<lparr>columns := cols\<rparr>)
      else Inl KeyError)"

definition sort_values_desc :: "('a \<Rightarrow> fl) \<Rightarrow> 'a list \<Rightarrow> 'a list" where
  \<comment> \<open>\<open>sort_values(by, ascending=False)\<close>: decreasing keys, the rows with a NaN key
      last. pandas leaves the order of rows with equal keys to the sorting algorithm; the
      model keeps their input order.\<close>
  "sort_values_desc by xs =
     sort_key (\<lambda>r. - the (by r)) (filter (\<lambda>r. by r \<noteq> None) xs) @ filter (\<lambda>r. by r = None) xs"

definition sort_frame :: "frame \<Rightarrow> frame" where
  "sort_frame df = df\<lparr>rows := sort_values_desc lifetime_value (rows df)\<rparr>"

definition segment_rows :: "analytics_row list \<Rightarrow> segment_row list" where
  \<comment> \<open>Steps 1 to 5 of \<open>main\<close>.\<close>
  "segment_rows csv =
     assign_segments (calculate_risk_score (calculate_lifetime_metrics
       (calculate_metrics (load_and_prepare_data csv))))"

definition main :: "analytics_row list \<Rightarrow> error + frame" where
  "main csv =
     (let df = \<lparr>columns = segment_columns, rows = segment_rows csv\<rparr>
      in case getitem df output_cols of
           Inl e \<Rightarrow> Inl e
         | Inr result \<Rightarrow> Inr (sort_frame result))"

definition pipeline_row :: "analytics_row \<Rightarrow> segment_row" where
  \<comment> \<open>What the five stages do to one row of the file.\<close>
  "pipeline_row r =
     assign_segments_row (calculate_risk_row (calculate_lifetime_row
       (calculate_metrics_row (load_and_prepare_row r))))"

subsection \<open>Auxiliary definitions for the statements\<close>

text \<open>
  A row of the merged table with the six cells the metrics depend on left open, for
  evaluating the stages on concrete customers; the order of a column sorted in decreasing
  order with NaN last; and the state of a row just before the risk score is computed.
\<close>

definition sample_row :: "fl \<Rightarrow> fl \<Rightarrow> fl \<Rightarrow> fl \<Rightarrow> fl \<Rightarrow> fl \<Rightarrow> analytics_row" where
  "sample_row ap prem claimed det tenure claims =
     \<lparr>customer_id = 1, name = ''A'', age = Some 40, email = ''a@example.org'', city = ''X'',
      registration_date = Some 0, customer_tenure_days = Some 1000,
      policy_tenure_days = tenure, total_policies = ap, active_policies = ap,
      total_claims = claims, total_claimed_amount = claimed, avg_claim_amount = claimed,
      fraud_detected = Some False, detection_count = det, avg_confidence = None,
      claims_per_policy = None, fraud_rate = None,
      avg_annual_premium = prem, total_coverage = Some 0, policy_ids = None\<rparr>"

definition fl_desc :: "fl \<Rightarrow> fl \<Rightarrow> bool" where
  "fl_desc a b = (case b of None \<Rightarrow> True | Some y \<Rightarrow> (case a of None \<Rightarrow> False | Some x \<Rightarrow> y \<le> x))"

definition lifetime_stage :: "analytics_row \<Rightarrow> lifetime_row" where
  "lifetime_stage r = calculate_lifetime_row (calculate_metrics_row (load_and_prepare_row r))"

text \<open>
  The two scripts as one pipeline: the second reads, by column name, the table the first
  writes (each script names its own file for that table). Then what the statements about
  the left joins need: the number of rows of a customer, and the aggregate columns of a
  row being zero, in the merged table and in the output.
\<close>

definition pipeline ::
  "int \<Rightarrow> customer list \<Rightarrow> policy list \<Rightarrow> claim list \<Rightarrow> fraud_detection list \<Rightarrow> error + frame" where
  "pipeline current_date customers policies claims fraud =
     main (generate_customer_analytics current_date customers policies claims fraud)"




text \<open>
  Four small input tables: Ann has two policies, one claim and one fraud detection, Bob
  has one policy and no claim, Cyd has no policy.
\<close>

definition ex_customers :: "customer list" where
  "ex_customers =
     [\<lparr>customer_id = 1, name = ''Ann'', age = Some 40, email = ''ann@example.org'',
       city = ''Pune'', registration_date = Some 100\<rparr>,
      \<lparr>customer_id = 2, name = ''Bob'', age = None, email = ''bob@example.org'',
       city = ''Agra'', registration_date = Some 200\<rparr>,
      \<lparr>customer_id = 3, name = ''Cyd'', age = Some 30, email = ''cyd@example.org'',
       city = ''Goa'', registration_date = None\<rparr>]"

definition ex_policies :: "policy list" where
  "ex_policies =
     [\<lparr>policy.policy_id = 10, policy.customer_id = 1, policy.status = ''ACTIVE'',
       annual_premium = Some 1000, coverage_amount = Some 50000, policy_type = ''AUTO'',
       start_date = Some 635\<rparr>,
      \<lparr>policy.policy_id = 11, policy.customer_id = 1, policy.status = ''LAPSED'',
       annual_premium = Some 500, coverage_amount = Some 10000, policy_type = ''HOME'',
       start_date = Some 700\<rparr>,
      \<lparr>policy.policy_id = 20, policy.customer_id = 2, policy.status = ''ACTIVE'',
       annual_premium = Some 800, coverage_amount = Some 20000, policy_type = ''AUTO'',
       start_date = Some 900\<rparr>]"

definition ex_claims :: "claim list" where
  "ex_claims =
     [\<lparr>claim.claim_id = 100, claim.policy_id = 10, claim_amount = Some 500,
       claim.status = ''PAID'', claim_date = Some 800\<rparr>]"

definition ex_fraud :: "fraud_detection list" where
  "ex_fraud =
     [\<lparr>fraud_detection.claim_id = 100, detection_date = Some 810, is_fraudulent = True,
       confidence_score = Some 0.9\<rparr>]"

section \<open>Properties of customer\_analytics.py\<close>

lemmas fl_defs = fl_add_def fl_sub_def fl_mul_def fl_div_def fl_gt_def fl_ge_def fl_lt_def
  fl_le_def fillna_def np_clip_def clip_lower_def np_where_def

lemmas stage_defs = assign_segments_row_def calculate_risk_row_def
  calculate_lifetime_row_def calculate_metrics_row_def load_and_prepare_row_def
  analytics_row.defs metrics_row.defs lifetime_row.defs risk_row.defs segment_row.defs Let_def

lemmas score_defs = loss_ratio_score_def fraud_score_def frequency_score_def claims_per_year_def

lemma pipeline_inputs:
  "customer_id (pipeline_row r) = customer_id r"
  "name (pipeline_row r) = name r"
  "active_policies (pipeline_row r) = active_policies r"
  "avg_annual_premium (pipeline_row r) = avg_annual_premium r"
  "policy_tenure_days (pipeline_row r) = fillna 0 (policy_tenure_days r)"
  "total_claims (pipeline_row r) = fillna 0 (total_claims r)"
  "total_claim_amount (pipeline_row r) = fillna 0 (total_claimed_amount r)"
  "fraud_claims (pipeline_row r) = fillna 0 (detection_count r)"
  by (simp_all add: pipeline_row_def stage_defs)

lemma pipeline_premium:
  "annual_premium_sum (pipeline_row r) = fl_mul (active_policies r) (avg_annual_premium r)"
  by (simp add: pipeline_row_def stage_defs)

lemma pipeline_lifetime:
  "lifetime_value (pipeline_row r) =
     fl_sub (annual_premium_sum (pipeline_row r)) (total_claim_amount (pipeline_row r))"
  by (simp add: pipeline_row_def stage_defs)

lemma pipeline_loss_ratio:
  "loss_ratio (pipeline_row r) =
     np_where (fl_gt (annual_premium_sum (pipeline_row r)) 0)
       (fl_div (total_claim_amount (pipeline_row r)) (annual_premium_sum (pipeline_row r))) None"
  by (simp add: pipeline_row_def stage_defs)

lemma pipeline_risk:
  "risk_score (pipeline_row r) =
     fl_add (fl_add (loss_ratio_score (lifetime_stage r)) (fraud_score (lifetime_stage r)))
       (frequency_score (lifetime_stage r))"
  by (simp add: pipeline_row_def lifetime_stage_def stage_defs)

lemma pipeline_segment:
  "segment (pipeline_row r) =
     segment_of (lifetime_value (pipeline_row r)) (risk_score (pipeline_row r))"
  by (simp add: pipeline_row_def stage_defs)

lemma lifetime_stage_fields:
  "loss_ratio (lifetime_stage r) = loss_ratio (pipeline_row r)"
  "fraud_claims (lifetime_stage r) = fillna 0 (detection_count r)"
  "total_claims (lifetime_stage r) = fillna 0 (total_claims r)"
  "policy_tenure_days (lifetime_stage r) = fillna 0 (policy_tenure_days r)"
  by (simp_all add: pipeline_row_def lifetime_stage_def stage_defs)

lemma np_clip_range:
  "np_clip a lo hi = Some v \<Longrightarrow> lo \<le> hi \<Longrightarrow> lo \<le> v \<and> v \<le> hi"
  by (auto simp: np_clip_def split: option.splits)

lemma fraud_score_defined: "\<exists>v. fraud_score (lifetime_stage r) = Some v \<and> 0 \<le> v \<and> v \<le> 30"
  by (auto simp: fraud_score_def lifetime_stage_fields fl_defs split: option.splits)

lemma frequency_score_defined:
  "\<exists>v. frequency_score (lifetime_stage r) = Some v \<and> 0 \<le> v \<and> v \<le> 20"
  by (auto simp: frequency_score_def claims_per_year_def lifetime_stage_fields fl_defs
      split: option.splits)

lemma loss_ratio_score_cases:
  "loss_ratio_score (lifetime_stage r) = None \<longleftrightarrow> loss_ratio (pipeline_row r) = None"
  by (auto simp: loss_ratio_score_def lifetime_stage_fields fl_defs split: option.splits)

lemma loss_ratio_score_range:
  "loss_ratio_score (lifetime_stage r) = Some v \<Longrightarrow> 0 \<le> v \<and> v \<le> 50"
  unfolding loss_ratio_score_def by (rule np_clip_range) simp_all

lemma loss_ratio_None_iff:
  "loss_ratio (pipeline_row r) = None \<longleftrightarrow> \<not> fl_gt (annual_premium_sum (pipeline_row r)) 0"
  by (auto simp: pipeline_loss_ratio pipeline_inputs fl_defs split: option.splits)

lemma risk_score_None_iff:
  "risk_score (pipeline_row r) = None \<longleftrightarrow> \<not> fl_gt (annual_premium_sum (pipeline_row r)) 0"
proof -
  obtain f where f: "fraud_score (lifetime_stage r) = Some f" using fraud_score_defined by blast
  obtain q where q: "frequency_score (lifetime_stage r) = Some q"
    using frequency_score_defined by blast
  have "risk_score (pipeline_row r) = None \<longleftrightarrow> loss_ratio_score (lifetime_stage r) = None"
    by (simp add: pipeline_risk f q fl_add_def split: option.splits)
  then show ?thesis by (simp add: loss_ratio_score_cases loss_ratio_None_iff)
qed

lemma risk_score_range:
  assumes "risk_score (pipeline_row r) = Some v"
  shows "0 \<le> v \<and> v \<le> 100"
proof -
  obtain f where f: "fraud_score (lifetime_stage r) = Some f" "0 \<le> f" "f \<le> 30"
    using fraud_score_defined by blast
  obtain q where q: "frequency_score (lifetime_stage r) = Some q" "0 \<le> q" "q \<le> 20"
    using frequency_score_defined by blast
  from assms obtain l where l: "loss_ratio_score (lifetime_stage r) = Some l" "v = l + f + q"
    by (auto simp: pipeline_risk f q fl_add_def split: option.splits)
  from loss_ratio_score_range[OF l(1)] f q l(2) show ?thesis by simp
qed

lemma set_sort_values_desc: "set (sort_values_desc by xs) = set xs"
  by (auto simp: sort_values_desc_def)

lemma mset_sort_values_desc: "mset (sort_values_desc by xs) = mset xs"
  by (simp add: sort_values_desc_def)

lemma sorted_wrt_desc_sort_key:
  assumes "\<forall>r\<in>set xs. by r \<noteq> None"
  shows "sorted_wrt (\<lambda>a b. fl_desc (by a) (by b)) (sort_key (\<lambda>r. - the (by r)) xs)"
proof -
  have s: "sorted (map (\<lambda>r. - the (by r)) (sort_key (\<lambda>r. - the (by r)) xs))"
    by (rule sorted_sort_key)
  have "sorted_wrt (\<lambda>a b. - the (by a) \<le> - the (by b)) (sort_key (\<lambda>r. - the (by r)) xs)"
    using s by (simp add: sorted_wrt_map)
  then show ?thesis
  proof (rule sorted_wrt_mono_rel[rotated])
    fix a b assume "a \<in> set (sort_key (\<lambda>r. - the (by r)) xs)" "b \<in> set (sort_key (\<lambda>r. - the (by r)) xs)"
      and "- the (by a) \<le> - the (by b)"
    with assms show "fl_desc (by a) (by b)" by (auto simp: fl_desc_def split: option.splits)
  qed
qed

lemma sorted_wrt_all:
  "(\<And>x y. x \<in> set xs \<Longrightarrow> y \<in> set xs \<Longrightarrow> P x y) \<Longrightarrow> sorted_wrt P xs"
  by (induction xs) auto

lemma sorted_sort_values_desc:
  "sorted_wrt (\<lambda>a b. fl_desc (by a) (by b)) (sort_values_desc by xs)"
proof -
  let ?P = "\<lambda>a b. fl_desc (by a) (by b)"
  have 1: "sorted_wrt ?P (sort_key (\<lambda>r. - the (by r)) (filter (\<lambda>r. by r \<noteq> None) xs))"
    by (rule sorted_wrt_desc_sort_key) simp
  have 2: "sorted_wrt ?P (filter (\<lambda>r. by r = None) xs)"
    by (rule sorted_wrt_all) (simp add: fl_desc_def)
  have 3: "?P a b" if "b \<in> set (filter (\<lambda>r. by r = None) xs)" for a b
    using that by (simp add: fl_desc_def)
  show ?thesis
    unfolding sort_values_desc_def sorted_wrt_append using 1 2 3 by blast
qed

lemma getitem_output_cols:
  "getitem \<lparr>columns = segment_columns, rows = rs\<rparr> output_cols = Inr \<lparr>columns = output_cols, rows = rs\<rparr>"
  by (simp add: getitem_def output_cols_def segment_columns_def final_columns_def)

lemma segment_rows_map: "segment_rows csv = map pipeline_row csv"
  by (simp add: segment_rows_def assign_segments_def calculate_risk_score_def
      calculate_lifetime_metrics_def calculate_metrics_def load_and_prepare_data_def
      pipeline_row_def comp_def)

lemma main_result:
  "main csv = Inr \<lparr>columns = output_cols,
                   rows = sort_values_desc lifetime_value (map pipeline_row csv)\<rparr>"
  by (simp add: main_def Let_def getitem_output_cols sort_frame_def segment_rows_map)

lemmas sample_eval = sample_row_def pipeline_row_def stage_defs score_defs fl_defs
  segment_of_def conditions_def segments_def lifetime_stage_def

section \<open>The claims about customer\_analytics.py\<close>

text \<open>
  C1 (the risk score of every customer lies in the closed interval from 0 to 100).
  The scripts do not achieve this: a customer with no active policy has the annual
  premium sum 0, the loss ratio NaN, and \<open>np.clip\<close> passes the NaN on, so the risk
  score is NaN and lies in no interval. The theorem runs both scripts on the example
  tables and lists customer\_id, annual premium sum and risk score of the output rows:
  Cyd, the customer without a policy, has no risk score.
\<close>

theorem risk_score_undefined_without_premium:
  "(case pipeline 1000 ex_customers ex_policies ex_claims ex_fraud of
      Inl e \<Rightarrow> []
    | Inr out \<Rightarrow> map (\<lambda>r. (customer_id r, annual_premium_sum r, risk_score r)) (rows out))
   = [(2, Some 800, Some 0), (1, Some 750, Some (44168 / 1095)), (3, Some 0, None)]"
  by code_simp

text \<open>
  C2 (with an annual premium sum of 0 the loss-ratio component contributes exactly 0 and
  no NaN reaches the risk score). The script does not achieve this either: on a customer
  with no active policy, two fraud detections and one claim in 730 days, the fraud and
  frequency components are 6 and 1461/730, the loss-ratio component is NaN, and the risk
  score is NaN instead of their sum.
\<close>

theorem loss_ratio_component_undefined_without_premium:
  "annual_premium_sum (pipeline_row (sample_row (Some 0) (Some 0) (Some 0) (Some 2) (Some 730) (Some 1))) = Some 0
   \<and> loss_ratio_score (lifetime_stage (sample_row (Some 0) (Some 0) (Some 0) (Some 2) (Some 730) (Some 1))) = None
   \<and> fraud_score (lifetime_stage (sample_row (Some 0) (Some 0) (Some 0) (Some 2) (Some 730) (Some 1))) = Some 6
   \<and> frequency_score (lifetime_stage (sample_row (Some 0) (Some 0) (Some 0) (Some 2) (Some 730) (Some 1))) = Some (1461 / 730)
   \<and> risk_score (pipeline_row (sample_row (Some 0) (Some 0) (Some 0) (Some 2) (Some 730) (Some 1))) = None"
  by (simp add: sample_eval)

text \<open>
  C3 (the segment is a function of the pair of lifetime value and risk score alone, given
  by the first rule that matches, in the order Premium Partner, Growth Prospect, Risk
  Management, and Watch List for everything else; it is always one of the four labels).
  A comparison with an undefined value is false, so an undefined lifetime value or risk
  score falls to the last rule.
\<close>

theorem segment_first_match:
  "segment_of ltv risk =
     (if fl_ge ltv 0 \<and> fl_le risk 40 then ''Premium Partner''
      else if fl_ge ltv 0 \<and> fl_gt risk 40 \<and> fl_le risk 60 then ''Growth Prospect''
      else if fl_lt ltv 0 \<and> fl_gt risk 60 then ''Risk Management''
      else ''Watch List'')
   \<and> segment_of ltv risk \<in> set segments
   \<and> map segment (assign_segments df) = map (\<lambda>r. segment_of (lifetime_value r) (risk_score r)) df
   \<and> segment_of (Some 100) (Some 65) = ''Watch List''"
  by (simp add: segment_of_def conditions_def segments_def assign_segments_def
      assign_segments_row_def risk_row.defs segment_row.defs fl_defs)

text \<open>
  C4 (the loss ratio is the total claim amount divided by the annual premium sum when
  that sum is positive, and is undefined, not zero, otherwise).
\<close>

theorem loss_ratio_guarded:
  "(annual_premium_sum (pipeline_row r) = Some p \<and> 0 < p \<longrightarrow>
      (\<exists>t. total_claim_amount (pipeline_row r) = Some t \<and> loss_ratio (pipeline_row r) = Some (t / p)))
   \<and> (\<not> fl_gt (annual_premium_sum (pipeline_row r)) 0 \<longrightarrow>
        loss_ratio (pipeline_row r) = None \<and> loss_ratio (pipeline_row r) \<noteq> Some 0)"
  by (auto simp: pipeline_loss_ratio pipeline_inputs fl_defs split: option.splits)

theorem loss_ratio_guarded_witness:
  "loss_ratio (pipeline_row (sample_row (Some 2) (Some 1000) (Some 500) (Some 0) (Some 365) (Some 1))) = Some (500 / 2000)
   \<and> loss_ratio (pipeline_row (sample_row (Some 0) (Some 1000) (Some 500) (Some 0) (Some 365) (Some 1))) = None"
proof -
  let ?a = "sample_row (Some 2) (Some 1000) (Some 500) (Some 0) (Some 365) (Some 1)"
  let ?b = "sample_row (Some 0) (Some 1000) (Some 500) (Some 0) (Some 365) (Some 1)"
  have a: "annual_premium_sum (pipeline_row ?a) = Some 2000 \<and> (0::real) < 2000"
    by (simp add: pipeline_premium sample_row_def fl_mul_def)
  have t: "total_claim_amount (pipeline_row ?a) = Some 500"
    by (simp add: pipeline_inputs sample_row_def fillna_def)
  have b: "\<not> fl_gt (annual_premium_sum (pipeline_row ?b)) 0"
    by (simp add: pipeline_premium sample_row_def fl_mul_def fl_gt_def)
  from loss_ratio_guarded[of ?a 2000] a t have "loss_ratio (pipeline_row ?a) = Some (500 / 2000)"
    by auto
  moreover from loss_ratio_guarded[of ?b] b have "loss_ratio (pipeline_row ?b) = None"
    by blast
  ultimately show ?thesis by blast
qed

text \<open>
  C6 (in every row of the output the annual premium sum is the number of active policies
  times the average annual premium, and the lifetime value is the annual premium sum minus
  the total claim amount; a lifetime value can be negative).
\<close>

theorem premium_and_lifetime_value:
  assumes "main csv = Inr out" and "r \<in> set (rows out)"
  shows "annual_premium_sum r = fl_mul (active_policies r) (avg_annual_premium r)
    \<and> lifetime_value r = fl_sub (annual_premium_sum r) (total_claim_amount r)
    \<and> (\<exists>csv' out' r'. main csv' = Inr out' \<and> r' \<in> set (rows out') \<and> fl_lt (lifetime_value r') 0)"
proof -
  from assms obtain x where x: "r = pipeline_row x"
    by (auto simp: main_result set_sort_values_desc)
  have 1: "annual_premium_sum r = fl_mul (active_policies r) (avg_annual_premium r)"
    by (simp add: x pipeline_premium pipeline_inputs)
  have 2: "lifetime_value r = fl_sub (annual_premium_sum r) (total_claim_amount r)"
    unfolding x by (rule pipeline_lifetime)
  let ?b = "sample_row (Some 0) (Some 1000) (Some 500) (Some 0) (Some 365) (Some 1)"
  have "fl_lt (lifetime_value (pipeline_row ?b)) 0"
    by (simp add: pipeline_lifetime pipeline_premium pipeline_inputs sample_row_def fl_defs)
  moreover have "pipeline_row ?b \<in> set (rows \<lparr>columns = output_cols,
      rows = sort_values_desc lifetime_value (map pipeline_row [?b])\<rparr>)"
    by (simp add: set_sort_values_desc)
  ultimately have 3: "\<exists>csv' out' r'. main csv' = Inr out' \<and> r' \<in> set (rows out') \<and> fl_lt (lifetime_value r') 0"
    using main_result[of "[?b]"] by blast
  from 1 2 3 show ?thesis by blast
qed

theorem premium_and_lifetime_value_witness:
  "main [sample_row (Some 2) (Some 1000) (Some 2500) (Some 0) (Some 365) (Some 1)]
     = Inr \<lparr>columns = output_cols,
            rows = [pipeline_row (sample_row (Some 2) (Some 1000) (Some 2500) (Some 0) (Some 365) (Some 1))]\<rparr>
   \<and> annual_premium_sum (pipeline_row (sample_row (Some 2) (Some 1000) (Some 2500) (Some 0) (Some 365) (Some 1)))
       = Some (2 * 1000)
   \<and> lifetime_value (pipeline_row (sample_row (Some 2) (Some 1000) (Some 2500) (Some 0) (Some 365) (Some 1)))
       = Some (2000 - 2500)"
proof -
  let ?a = "sample_row (Some 2) (Some 1000) (Some 2500) (Some 0) (Some 365) (Some 1)"
  let ?out = "\<lparr>columns = output_cols, rows = [pipeline_row ?a]\<rparr>"
  have d: "lifetime_value (pipeline_row ?a) \<noteq> None"
    by (simp add: pipeline_lifetime pipeline_premium pipeline_inputs sample_row_def fl_defs)
  have m: "main [?a] = Inr ?out"
    using d by (simp add: main_result sort_values_desc_def)
  have r: "pipeline_row ?a \<in> set (rows ?out)" by simp
  have f: "active_policies (pipeline_row ?a) = Some 2" "avg_annual_premium (pipeline_row ?a) = Some 1000"
    "total_claim_amount (pipeline_row ?a) = Some 2500"
    by (simp_all add: pipeline_inputs sample_row_def fillna_def)
  from premium_and_lifetime_value[OF m r] f m show ?thesis
    by (simp add: fl_mul_def fl_sub_def)
qed

text \<open>
  C7 (the worked example: two active policies at an average premium of 1000, claims of
  500, no fraud detection, one claim in a tenure of 365 days). As stated, with a
  frequency score of 4 and a risk score of 16.5, the example does not hold: a year has
  365.25 days in the script, so one claim in 365 days is 1461/1460 claims per year.
\<close>

theorem scenario_not_as_stated:
  "\<not> (annual_premium_sum (pipeline_row (sample_row (Some 2) (Some 1000) (Some 500) (Some 0) (Some 365) (Some 1))) = Some 2000
      \<and> lifetime_value (pipeline_row (sample_row (Some 2) (Some 1000) (Some 500) (Some 0) (Some 365) (Some 1))) = Some 1500
      \<and> loss_ratio (pipeline_row (sample_row (Some 2) (Some 1000) (Some 500) (Some 0) (Some 365) (Some 1))) = Some 0.25
      \<and> frequency_score (lifetime_stage (sample_row (Some 2) (Some 1000) (Some 500) (Some 0) (Some 365) (Some 1))) = Some 4
      \<and> risk_score (pipeline_row (sample_row (Some 2) (Some 1000) (Some 500) (Some 0) (Some 365) (Some 1))) = Some 16.5
      \<and> segment (pipeline_row (sample_row (Some 2) (Some 1000) (Some 500) (Some 0) (Some 365) (Some 1))) = ''Premium Partner'')"
  by (simp add: sample_eval)

text \<open>
  C7, amended: on that customer the annual premium sum is 2000, the lifetime value 1500,
  the loss ratio 0.25, the claims per year 1461/1460, the frequency score 4 + 1/365, the
  risk score 16.5 + 1/365 (the sum of the three clipped components 12.5, 0 and 4 + 1/365),
  and the segment Premium Partner.
\<close>

theorem scenario_values:
  "annual_premium_sum (pipeline_row (sample_row (Some 2) (Some 1000) (Some 500) (Some 0) (Some 365) (Some 1))) = Some 2000
   \<and> lifetime_value (pipeline_row (sample_row (Some 2) (Some 1000) (Some 500) (Some 0) (Some 365) (Some 1))) = Some 1500
   \<and> loss_ratio (pipeline_row (sample_row (Some 2) (Some 1000) (Some 500) (Some 0) (Some 365) (Some 1))) = Some 0.25
   \<and> loss_ratio_score (lifetime_stage (sample_row (Some 2) (Some 1000) (Some 500) (Some 0) (Some 365) (Some 1))) = Some 12.5
   \<and> fraud_score (lifetime_stage (sample_row (Some 2) (Some 1000) (Some 500) (Some 0) (Some 365) (Some 1))) = Some 0
   \<and> claims_per_year (lifetime_stage (sample_row (Some 2) (Some 1000) (Some 500) (Some 0) (Some 365) (Some 1))) = Some (1461 / 1460)
   \<and> frequency_score (lifetime_stage (sample_row (Some 2) (Some 1000) (Some 500) (Some 0) (Some 365) (Some 1))) = Some (4 + 1 / 365)
   \<and> risk_score (pipeline_row (sample_row (Some 2) (Some 1000) (Some 500) (Some 0) (Some 365) (Some 1))) = Some (16.5 + 1 / 365)
   \<and> segment (pipeline_row (sample_row (Some 2) (Some 1000) (Some 500) (Some 0) (Some 365) (Some 1))) = ''Premium Partner''"
  by (simp add: sample_eval)

text \<open>
  C8 (a customer whose annual premium sum is 0 is put on the Watch List: the loss ratio
  is undefined, so the risk score is undefined, so the three specific conditions are
  false and the default fires).
\<close>

theorem no_premium_watch_list:
  assumes "annual_premium_sum (pipeline_row r) = Some 0"
  shows "loss_ratio (pipeline_row r) = None \<and> risk_score (pipeline_row r) = None
    \<and> conditions (lifetime_value (pipeline_row r)) (risk_score (pipeline_row r))
        = [False, False, False, True]
    \<and> segment (pipeline_row r) = ''Watch List''"
proof -
  have g: "\<not> fl_gt (annual_premium_sum (pipeline_row r)) 0" by (simp add: assms fl_gt_def)
  have l: "loss_ratio (pipeline_row r) = None" using g by (simp add: loss_ratio_None_iff)
  have n: "risk_score (pipeline_row r) = None" using g by (simp add: risk_score_None_iff)
  have c: "conditions (lifetime_value (pipeline_row r)) (risk_score (pipeline_row r))
      = [False, False, False, True]"
    by (simp add: n conditions_def fl_defs)
  have "segment (pipeline_row r) = ''Watch List''"
    by (simp add: pipeline_segment segment_of_def c segments_def)
  with l n c show ?thesis by blast
qed

theorem no_premium_watch_list_witness:
  "annual_premium_sum (pipeline_row (sample_row (Some 0) (Some 1000) (Some 500) (Some 0) (Some 365) (Some 1))) = Some 0
   \<and> segment (pipeline_row (sample_row (Some 0) (Some 1000) (Some 500) (Some 0) (Some 365) (Some 1))) = ''Watch List''"
proof -
  let ?b = "sample_row (Some 0) (Some 1000) (Some 500) (Some 0) (Some 365) (Some 1)"
  have h: "annual_premium_sum (pipeline_row ?b) = Some 0"
    by (simp add: pipeline_premium sample_row_def fl_mul_def)
  from h no_premium_watch_list[OF h] show ?thesis by blast
qed

text \<open>
  C10 (the output has exactly the eleven columns customer\_id, name, lifetime\_value,
  loss\_ratio, risk\_score, segment, total\_claims, total\_claim\_amount,
  annual\_premium\_sum, fraud\_claims, policy\_tenure\_days, and its rows are in decreasing
  order of lifetime value). Rows with an undefined lifetime value come last; the rows are
  those of the input, each taken through the five stages.
\<close>

theorem output_columns_sorted:
  "\<exists>out. main csv = Inr out
     \<and> columns out = [''customer_id'', ''name'', ''lifetime_value'', ''loss_ratio'', ''risk_score'',
          ''segment'', ''total_claims'', ''total_claim_amount'', ''annual_premium_sum'',
          ''fraud_claims'', ''policy_tenure_days'']
     \<and> sorted_wrt fl_desc (map lifetime_value (rows out))
     \<and> mset (rows out) = mset (map pipeline_row csv)"
  by (simp add: main_result output_cols_def sorted_wrt_map sorted_sort_values_desc mset_sort_values_desc)

section \<open>Properties of generate\_customer\_analytics.py\<close>




























end
